theory Spec2Isabelle
  imports Main "HOL-Library.Word" "HOL-Library.AList"
begin

unbundle bit_operations_syntax

section \<open>Python values\<close>

text \<open>
  The two modules of the repository, \<^verbatim>\<open>browser_use/http.py\<close> and
  \<^verbatim>\<open>browser_use/browser/browser.py\<close>, are embedded as HOL functions.

  A Python \<^verbatim>\<open>str\<close> is a \<^typ>\<open>string\<close>: each \<^typ>\<open>char\<close> is one code point, so
  the embedding covers the strings whose code points lie below 256 (the octets of an HTTP
  header line, read as Latin-1). A \<^verbatim>\<open>bytes\<close> object is a list of 8-bit words, an
  \<^verbatim>\<open>int\<close> is an \<^typ>\<open>int\<close>, \<^verbatim>\<open>Optional[T]\<close> is \<^typ>\<open>'a option\<close>, and a
  \<^verbatim>\<open>Dict[str, T]\<close> is an association list in insertion order, read with
  \<^const>\<open>map_of\<close> and written with \<^const>\<open>AList.update\<close>.

  An exception is a value of \<open>exn\<close>, and a method that can raise returns
  \<open>exn + 'a\<close>. The exceptions raised by this repository carry their message. The
  built-in ones are named after their class; \<open>Ill_typed\<close> is not a Python exception,
  see \<open>from_json\<close> below. Exceptions that derive from \<^verbatim>\<open>BaseException\<close> only
  (task cancellation, interpreter exit) are outside the embedding.
\<close>

type_synonym bytes = "8 word list"

datatype exn =
    Exception string
  | ValueError string
  | RuntimeError string
  | KeyError string
  | TypeError
  | AttributeError
  | Int_ValueError
  | RequestsConnectionError
  | EngineError string
  | Ill_typed string

definition and_then :: "exn + 'a \<Rightarrow> ('a \<Rightarrow> exn + 'b) \<Rightarrow> exn + 'b" where
  "and_then m f = (case m of Inl e \<Rightarrow> Inl e | Inr x \<Rightarrow> f x)"

fun map_result :: "('a \<Rightarrow> exn + 'b) \<Rightarrow> 'a list \<Rightarrow> exn + 'b list" where
  "map_result f [] = Inr []"
| "map_result f (x # xs) =
     and_then (f x) (\<lambda>y. and_then (map_result f xs) (\<lambda>ys. Inr (y # ys)))"

text \<open>The truth value of an \<^verbatim>\<open>Optional[str]\<close>, as in \<^verbatim>\<open>if self.config.cdp_url:\<close>:
  \<^verbatim>\<open>None\<close> and the empty string are false.\<close>

definition truthy :: "'a list option \<Rightarrow> bool" where
  "truthy x = (case x of None \<Rightarrow> False | Some s \<Rightarrow> s \<noteq> [])"

subsection \<open>Built-in string functions\<close>

definition hexdigits :: string where
  "hexdigits = ''0123456789abcdef''"

definition hex_escape :: "nat \<Rightarrow> string" where
  "hex_escape n = [CHR 0x5C, CHR ''x'', hexdigits ! (n div 16), hexdigits ! (n mod 16)]"

text \<open>\<^verbatim>\<open>str(b)\<close> of a \<^verbatim>\<open>bytes\<close> object is its \<^verbatim>\<open>repr\<close>: the letter b, a quote, the
  bytes with the non-printable ones escaped, and the quote again. The quote is the double
  quote when the bytes hold a single quote and no double quote.\<close>

definition bytes_quote :: "bytes \<Rightarrow> 8 word" where
  "bytes_quote b = (if 0x27 \<in> set b \<and> 0x22 \<notin> set b then 0x22 else 0x27)"

definition bytes_repr_byte :: "8 word \<Rightarrow> 8 word \<Rightarrow> string" where
  "bytes_repr_byte q c =
     (if c = q \<or> c = 0x5C then [CHR 0x5C, char_of (unat c)]
      else if c = 0x09 then [CHR 0x5C, CHR ''t'']
      else if c = 0x0A then [CHR 0x5C, CHR ''n'']
      else if c = 0x0D then [CHR 0x5C, CHR ''r'']
      else if c < 0x20 \<or> 0x7F \<le> c then hex_escape (unat c)
      else [char_of (unat c)])"

definition str_bytes :: "bytes \<Rightarrow> string" where
  "str_bytes b =
     (let q = bytes_quote b
      in CHR ''b'' # char_of (unat q) # concat (map (bytes_repr_byte q) b) @ [char_of (unat q)])"

text \<open>\<^verbatim>\<open>s.encode()\<close> is the UTF-8 encoding: one byte for a code point below 128, two
  bytes for the others below 256.\<close>

definition encode_char :: "char \<Rightarrow> bytes" where
  "encode_char c =
     (let n = (of_char c :: nat)
      in if n < 128 then [of_nat n]
         else [0xC0 OR of_nat (n div 64), 0x80 OR of_nat (n mod 64)])"

definition encode :: "string \<Rightarrow> bytes" where
  "encode s = concat (map encode_char s)"

text \<open>\<^verbatim>\<open>repr\<close> of a \<^verbatim>\<open>str\<close>, and \<^verbatim>\<open>str\<close> of a \<^verbatim>\<open>Dict[str, str]\<close>, of an
  \<^verbatim>\<open>int\<close> and of an \<^verbatim>\<open>Optional[str]\<close>.\<close>

definition str_quote :: "string \<Rightarrow> char" where
  "str_quote s = (if CHR 0x27 \<in> set s \<and> CHR 0x22 \<notin> set s then CHR 0x22 else CHR 0x27)"

definition printable :: "nat \<Rightarrow> bool" where
  "printable n = (\<not> (n < 32 \<or> (127 \<le> n \<and> n \<le> 160) \<or> n = 173))"

definition repr_char :: "char \<Rightarrow> char \<Rightarrow> string" where
  "repr_char q c =
     (let n = (of_char c :: nat)
      in if c = q \<or> c = CHR 0x5C then [CHR 0x5C, c]
         else if n = 9 then [CHR 0x5C, CHR ''t'']
         else if n = 10 then [CHR 0x5C, CHR ''n'']
         else if n = 13 then [CHR 0x5C, CHR ''r'']
         else if printable n then [c]
         else hex_escape n)"

definition repr_str :: "string \<Rightarrow> string" where
  "repr_str s = (let q = str_quote s in q # concat (map (repr_char q) s) @ [q])"

fun join :: "string \<Rightarrow> string list \<Rightarrow> string" where
  "join sep [] = []"
| "join sep [x] = x"
| "join sep (x # y # ys) = x @ sep @ join sep (y # ys)"

definition str_dict :: "(string \<times> string) list \<Rightarrow> string" where
  "str_dict d = ''{'' @ join '', '' (map (\<lambda>(k, v). repr_str k @ '': '' @ repr_str v) d) @ ''}''"

fun digits :: "nat \<Rightarrow> string" where
  "digits n = (if n < 10 then [char_of (48 + n)] else digits (n div 10) @ [char_of (48 + n mod 10)])"

declare digits.simps [simp del]

definition str_int :: "int \<Rightarrow> string" where
  "str_int i = (if i < 0 then CHR ''-'' # digits (nat (- i)) else digits (nat i))"

text \<open>\<^verbatim>\<open>s.lower()\<close> on code points below 256: the capital letters A to Z and those
  from 0xC0 to 0xDE, the multiplication sign 0xD7 apart, move up by 32.\<close>

definition lower_char :: "char \<Rightarrow> char" where
  "lower_char c =
     (let n = (of_char c :: nat)
      in if (65 \<le> n \<and> n \<le> 90) \<or> (192 \<le> n \<and> n \<le> 222 \<and> n \<noteq> 215) then char_of (n + 32) else c)"

definition lower :: "string \<Rightarrow> string" where
  "lower s = map lower_char s"

text \<open>\<^verbatim>\<open>s.isdigit()\<close> holds when \<open>s\<close> is not empty and each character has the Unicode
  property of a digit: below 256 these are the decimal digits 0 to 9 and the superscript
  digits 0xB2, 0xB3 and 0xB9. \<^verbatim>\<open>int(s)\<close> reads decimal digits only, so on a string that
  passes \<^verbatim>\<open>isdigit()\<close> it raises \<^verbatim>\<open>ValueError\<close> exactly when a superscript digit
  occurs, or when the string is longer than the interpreter's limit on the digits of an
  integer literal (\<^verbatim>\<open>sys.get_int_max_str_digits()\<close>, 4300 unless reconfigured, 0 for no
  limit and in interpreters that have none). The limit is the parameter
  \<open>max_str_digits\<close> of everything that calls \<^verbatim>\<open>int\<close>. \<open>int_of_digits\<close> is
  \<^verbatim>\<open>int(s)\<close> for strings that pass \<^verbatim>\<open>isdigit()\<close>; signs, blanks and underscores,
  which \<^verbatim>\<open>int\<close> accepts and \<^verbatim>\<open>isdigit()\<close> does not, are never passed to it.\<close>

definition is_decimal_char :: "char \<Rightarrow> bool" where
  "is_decimal_char c = (48 \<le> (of_char c :: nat) \<and> (of_char c :: nat) \<le> 57)"

definition is_digit_char :: "char \<Rightarrow> bool" where
  "is_digit_char c = (is_decimal_char c \<or> (of_char c :: nat) \<in> {0xB2, 0xB3, 0xB9})"

definition isdigit :: "string \<Rightarrow> bool" where
  "isdigit s = (s \<noteq> [] \<and> list_all is_digit_char s)"

definition decimal_value :: "string \<Rightarrow> int" where
  "decimal_value s = foldl (\<lambda>acc c. 10 * acc + (int (of_char c) - 48)) 0 s"

definition int_of_digits :: "nat \<Rightarrow> string \<Rightarrow> exn + int" where
  "int_of_digits max_str_digits s =
     (if s = [] \<or> \<not> list_all is_decimal_char s then Inl Int_ValueError
      else if 0 < max_str_digits \<and> max_str_digits < length s then Inl Int_ValueError
      else Inr (decimal_value s))"

section \<open>The HTTP traffic model (http.py)\<close>

text \<open>The dictionaries that \<^verbatim>\<open>to_json\<close> builds and \<^verbatim>\<open>from_json\<close> reads hold JSON
  values: \<^verbatim>\<open>None\<close>, truth values, integers, strings, lists and dictionaries with string
  keys. \<^verbatim>\<open>to_json\<close> writes no floating-point number, and they are left out.\<close>

datatype json =
    JNone
  | JBool bool
  | JInt int
  | JStr string
  | JList "json list"
  | JDict "(string \<times> json) list"

definition json_of_headers :: "(string \<times> string) list \<Rightarrow> json" where
  "json_of_headers h = JDict (map (\<lambda>(k, v). (k, JStr v)) h)"

definition json_of_opt_str :: "string option \<Rightarrow> json" where
  "json_of_opt_str x = (case x of None \<Rightarrow> JNone | Some s \<Rightarrow> JStr s)"

text \<open>The keys of a dictionary, in insertion order.\<close>

definition json_keys :: "json \<Rightarrow> string list" where
  "json_keys data = (case data of JDict kvs \<Rightarrow> map fst kvs | _ \<Rightarrow> [])"

text \<open>\<^verbatim>\<open>data[key]\<close>: a missing key raises \<^verbatim>\<open>KeyError\<close>, and a value that is not a
  dictionary cannot be indexed by a string.\<close>

definition subscript :: "json \<Rightarrow> string \<Rightarrow> exn + json" where
  "subscript data key =
     (case data of
        JDict kvs \<Rightarrow> (case map_of kvs key of None \<Rightarrow> Inl (KeyError key) | Some v \<Rightarrow> Inr v)
      | _ \<Rightarrow> Inl TypeError)"

text \<open>The dataclasses are typed records. \<^verbatim>\<open>from_json\<close> stores what it finds in the
  dictionary unchecked, and a value of the wrong type fails only where the field is used
  later; the typed records cannot hold such a value, so the embedding answers
  \<open>Ill_typed\<close> with the field's name once all the look-ups of the source have been made.\<close>

definition as_str :: "string \<Rightarrow> json \<Rightarrow> exn + string" where
  "as_str field v = (case v of JStr s \<Rightarrow> Inr s | _ \<Rightarrow> Inl (Ill_typed field))"

definition as_opt_str :: "string \<Rightarrow> json \<Rightarrow> exn + string option" where
  "as_opt_str field v =
     (case v of JNone \<Rightarrow> Inr None | JStr s \<Rightarrow> Inr (Some s) | _ \<Rightarrow> Inl (Ill_typed field))"

definition as_int :: "string \<Rightarrow> json \<Rightarrow> exn + int" where
  "as_int field v = (case v of JInt i \<Rightarrow> Inr i | _ \<Rightarrow> Inl (Ill_typed field))"

definition as_bool :: "string \<Rightarrow> json \<Rightarrow> exn + bool" where
  "as_bool field v = (case v of JBool b \<Rightarrow> Inr b | _ \<Rightarrow> Inl (Ill_typed field))"

definition as_headers :: "string \<Rightarrow> json \<Rightarrow> exn + (string \<times> string) list" where
  "as_headers field v =
     (case v of
        JDict kvs \<Rightarrow> map_result (\<lambda>(k, x). and_then (as_str field x) (\<lambda>s. Inr (k, s))) kvs
      | _ \<Rightarrow> Inl (Ill_typed field))"

subsection \<open>HTTPRequest\<close>

text \<open>The class \<^verbatim>\<open>HTTPRequest\<close> wraps one \<^verbatim>\<open>HTTPRequestData\<close> and adds no field, so
  a request is the record. The fields \<^verbatim>\<open>method\<close>, \<^verbatim>\<open>url\<close>, \<^verbatim>\<open>headers\<close>
  and \<^verbatim>\<open>is_iframe\<close> of the request carry the prefix \<open>req_\<close>: the first is a
  keyword of Isabelle, and the response has fields with the names of the others.\<close>

record HTTPRequestData =
  req_method :: string
  req_url :: string
  req_headers :: "(string \<times> string) list"
  post_data :: "string option"
  redirected_from_url :: "string option"
  redirected_to_url :: "string option"
  req_is_iframe :: bool

definition request_to_json :: "HTTPRequestData \<Rightarrow> json" where
  "request_to_json r =
     JDict [(''method'', JStr (req_method r)),
            (''url'', JStr (req_url r)),
            (''headers'', json_of_headers (req_headers r)),
            (''post_data'', json_of_opt_str (post_data r)),
            (''redirected_from'', json_of_opt_str (redirected_from_url r)),
            (''redirected_to'', json_of_opt_str (redirected_to_url r)),
            (''is_iframe'', JBool (req_is_iframe r))]"

definition request_from_json :: "json \<Rightarrow> exn + HTTPRequestData" where
  "request_from_json data =
     and_then (subscript data ''method'') (\<lambda>m.
     and_then (subscript data ''url'') (\<lambda>u.
     and_then (subscript data ''headers'') (\<lambda>h.
     and_then (subscript data ''post_data'') (\<lambda>p.
     and_then (subscript data ''redirected_from'') (\<lambda>rf.
     and_then (subscript data ''redirected_to'') (\<lambda>rt.
     and_then (subscript data ''is_iframe'') (\<lambda>i.
     and_then (as_str ''method'' m) (\<lambda>m'.
     and_then (as_str ''url'' u) (\<lambda>u'.
     and_then (as_headers ''headers'' h) (\<lambda>h'.
     and_then (as_opt_str ''post_data'' p) (\<lambda>p'.
     and_then (as_opt_str ''redirected_from'' rf) (\<lambda>rf'.
     and_then (as_opt_str ''redirected_to'' rt) (\<lambda>rt'.
     and_then (as_bool ''is_iframe'' i) (\<lambda>i'.
       Inr \<lparr>req_method = m', req_url = u', req_headers = h', post_data = p',
            redirected_from_url = rf', redirected_to_url = rt',
            req_is_iframe = i'\<rparr>))))))))))))))"

subsection \<open>HTTPResponse\<close>

record HTTPResponseData =
  url :: string
  status :: int
  headers :: "(string \<times> string) list"
  is_iframe :: bool
  body :: "bytes option"
  body_error :: "string option"

text \<open>\<^verbatim>\<open>get_body\<close> reads \<^verbatim>\<open>self._data\<close> and assigns to nothing; the record it
  leaves behind is returned next to the result. The class holds no reference to the engine's
  response object, so the method has nothing to fetch a body from.\<close>

definition get_body :: "HTTPResponseData \<Rightarrow> (exn + bytes) \<times> HTTPResponseData" where
  "get_body r =
     (if truthy (body_error r) then (Inl (Exception (the (body_error r))), r)
      else case body r of
             None \<Rightarrow> (Inl (Exception ''Response body not available''), r)
           | Some b \<Rightarrow> (Inr b, r))"

definition get_content_type :: "HTTPResponseData \<Rightarrow> string" where
  "get_content_type r =
     (if headers r = [] then []
      else lower (case map_of (headers r) ''content-type'' of None \<Rightarrow> [] | Some v \<Rightarrow> v))"

definition get_status_code :: "HTTPResponseData \<Rightarrow> int" where
  "get_status_code r = (if status r = 0 then 0 else status r)"

definition get_response_size :: "nat \<Rightarrow> HTTPResponseData \<Rightarrow> exn + int" where
  "get_response_size max_str_digits r =
     (if headers r = [] then Inr 0
      else case map_of (headers r) ''content-length'' of
             None \<Rightarrow> Inr 0
           | Some content_length \<Rightarrow>
               if content_length \<noteq> [] \<and> isdigit content_length
               then int_of_digits max_str_digits content_length
               else Inr 0)"

definition is_redirect :: "int \<Rightarrow> bool" where
  "is_redirect s = (300 \<le> s \<and> s < 400)"

definition response_to_json :: "nat \<Rightarrow> HTTPResponseData \<Rightarrow> exn + json" where
  "response_to_json max_str_digits r =
     and_then (get_response_size max_str_digits r) (\<lambda>n.
       let json_data =
             [(''url'', JStr (url r)),
              (''status'', JInt (status r)),
              (''headers'', json_of_headers (headers r)),
              (''content_type'', JStr (get_content_type r)),
              (''content_length'', JInt n),
              (''is_iframe'', JBool (is_iframe r))]
       in Inr (JDict
            (if \<not> is_redirect (status r) then
               (if truthy (body_error r)
                then AList.update ''body_error'' (JStr (the (body_error r))) json_data
                else if truthy (body r)
                then AList.update ''body'' (JStr (str_bytes (the (body r)))) json_data
                else json_data)
             else json_data)))"

definition response_from_json :: "json \<Rightarrow> exn + HTTPResponseData" where
  "response_from_json data =
     and_then (subscript data ''url'') (\<lambda>u.
     and_then (subscript data ''status'') (\<lambda>s.
     and_then (subscript data ''headers'') (\<lambda>h.
     and_then (subscript data ''is_iframe'') (\<lambda>i.
     (case data of
        JDict kvs \<Rightarrow>
          and_then (case map_of kvs ''body'' of
                      None \<Rightarrow> Inr None
                    | Some (JStr t) \<Rightarrow> Inr (Some (encode t))
                    | Some _ \<Rightarrow> Inl AttributeError) (\<lambda>b.
          and_then (as_str ''url'' u) (\<lambda>u'.
          and_then (as_int ''status'' s) (\<lambda>s'.
          and_then (as_headers ''headers'' h) (\<lambda>h'.
          and_then (as_bool ''is_iframe'' i) (\<lambda>i'.
          and_then (as_opt_str ''body_error''
                      (case map_of kvs ''body_error'' of None \<Rightarrow> JNone | Some v \<Rightarrow> v)) (\<lambda>e.
            Inr \<lparr>url = u', status = s', headers = h', is_iframe = i',
                 body = b, body_error = e\<rparr>))))))
      | _ \<Rightarrow> Inl TypeError)))))"

text \<open>What \<^verbatim>\<open>from_pw\<close> reads of the engine's response object.\<close>

record pw_response =
  pw_url :: string
  pw_status :: int
  pw_headers :: "(string \<times> string) list"
  pw_has_parent_frame :: bool

definition from_pw :: "pw_response \<Rightarrow> HTTPResponseData" where
  "from_pw response =
     \<lparr>url = pw_url response, status = pw_status response, headers = pw_headers response,
      is_iframe = pw_has_parent_frame response, body = None, body_error = None\<rparr>"

definition to_str_head :: "HTTPResponseData \<Rightarrow> string" where
  "to_str_head r =
     ''[Response]: '' @ url r @ '' '' @ str_int (status r) @ [CHR 0x0A]
     @ (if is_iframe r then ''From iframe'' @ [CHR 0x0A] else [])
     @ str_dict (headers r) @ [CHR 0x0A]"

text \<open>\<^verbatim>\<open>to_str\<close>: the only exceptions that \<^verbatim>\<open>get_body\<close> raises are
  \<^verbatim>\<open>Exception(msg)\<close>, and \<^verbatim>\<open>str(e)\<close> of such an exception is \<open>msg\<close>.\<close>

definition to_str :: "HTTPResponseData \<Rightarrow> string" where
  "to_str r =
     (if is_redirect (status r) then to_str_head r @ ''[Redirect response - no body]''
      else case fst (get_body r) of
             Inr resp_bytes \<Rightarrow> to_str_head r @ str_bytes resp_bytes
           | Inl e \<Rightarrow>
               to_str_head r @ ''[Error getting response body: ''
               @ (case e of Exception msg \<Rightarrow> msg | _ \<Rightarrow> []) @ '']'')"

subsection \<open>HTTPMessage and HTTPMessageSession\<close>

text \<open>The truth value of a JSON value, as in \<^verbatim>\<open>if data.get("response")\<close>.\<close>

definition json_truthy :: "json \<Rightarrow> bool" where
  "json_truthy v =
     (case v of
        JNone \<Rightarrow> False
      | JBool b \<Rightarrow> b
      | JInt i \<Rightarrow> i \<noteq> 0
      | JStr s \<Rightarrow> s \<noteq> []
      | JList xs \<Rightarrow> xs \<noteq> []
      | JDict kvs \<Rightarrow> kvs \<noteq> [])"

text \<open>What a \<^verbatim>\<open>for\<close> loop over a JSON value goes through: the items of a list, the
  keys of a dictionary, the characters of a string; the other values are not iterable.\<close>

definition iterate :: "json \<Rightarrow> exn + json list" where
  "iterate v =
     (case v of
        JList xs \<Rightarrow> Inr xs
      | JStr s \<Rightarrow> Inr (map (\<lambda>c. JStr [c]) s)
      | JDict kvs \<Rightarrow> Inr (map (\<lambda>kv. JStr (fst kv)) kvs)
      | _ \<Rightarrow> Inl TypeError)"

record HTTPMessage =
  request :: HTTPRequestData
  response :: "HTTPResponseData option"

text \<open>An \<^verbatim>\<open>HTTPResponse\<close> object defines neither \<^verbatim>\<open>__bool__\<close> nor
  \<^verbatim>\<open>__len__\<close>, so \<^verbatim>\<open>if self.response\<close> holds exactly when a response is there.\<close>

definition message_to_json :: "nat \<Rightarrow> HTTPMessage \<Rightarrow> exn + json" where
  "message_to_json max_str_digits m =
     (let json_data = [(''request'', request_to_json (request m))]
      in case response m of
           None \<Rightarrow> Inr (JDict json_data)
         | Some r \<Rightarrow>
             and_then (response_to_json max_str_digits r) (\<lambda>j.
               Inr (JDict (AList.update ''response'' j json_data))))"

definition message_from_json :: "json \<Rightarrow> exn + HTTPMessage" where
  "message_from_json data =
     and_then (subscript data ''request'') (\<lambda>rq.
     and_then (request_from_json rq) (\<lambda>req.
     (case data of
        JDict kvs \<Rightarrow>
          (case map_of kvs ''response'' of
             None \<Rightarrow> Inr \<lparr>request = req, response = None\<rparr>
           | Some v \<Rightarrow>
               if json_truthy v
               then and_then (response_from_json v) (\<lambda>resp.
                      Inr \<lparr>request = req, response = Some resp\<rparr>)
               else Inr \<lparr>request = req, response = None\<rparr>)
      | _ \<Rightarrow> Inl TypeError)))"

record HTTPMessageSession =
  messages :: "HTTPMessage list"
  name :: string

definition session_to_json :: "nat \<Rightarrow> HTTPMessageSession \<Rightarrow> exn + json" where
  "session_to_json max_str_digits s =
     and_then (map_result (message_to_json max_str_digits) (messages s)) (\<lambda>ms.
       Inr (JDict [(''name'', JStr (name s)), (''messages'', JList ms)]))"

definition session_from_json :: "json \<Rightarrow> exn + HTTPMessageSession" where
  "session_from_json data =
     and_then (subscript data ''messages'') (\<lambda>ms.
     and_then (iterate ms) (\<lambda>items.
     and_then (map_result message_from_json items) (\<lambda>msgs.
     and_then (subscript data ''name'') (\<lambda>n.
     and_then (as_str ''name'' n) (\<lambda>n'.
       Inr \<lparr>messages = msgs, name = n'\<rparr>)))))"

text \<open>The round trip \<^verbatim>\<open>from_json(to_json(S))\<close>.\<close>

definition round_trip :: "nat \<Rightarrow> HTTPMessageSession \<Rightarrow> exn + HTTPMessageSession" where
  "round_trip max_str_digits s = and_then (session_to_json max_str_digits s) session_from_json"

section \<open>The browser manager (browser/browser.py)\<close>

text \<open>\<^verbatim>\<open>ProxySettings\<close> is the engine's dictionary type with the key \<^verbatim>\<open>server\<close> and
  the optional keys \<^verbatim>\<open>bypass\<close>, \<^verbatim>\<open>username\<close> and \<^verbatim>\<open>password\<close>; a key that is
  not in the dictionary is \<open>None\<close> here.\<close>

record ProxySettings =
  server :: string
  bypass :: "string option"
  username :: "string option"
  password :: "string option"

text \<open>The dataclass \<^verbatim>\<open>BrowserConfig\<close>, with the attribute \<^verbatim>\<open>proxy\<close> that
  \<^verbatim>\<open>__post_init__\<close> adds. \<^verbatim>\<open>BrowserContextConfig\<close> is declared in another module;
  it is the type parameter \<open>'ctx\<close>.\<close>

record 'ctx BrowserConfig =
  headless :: bool
  disable_security :: bool
  extra_chromium_args :: "string list"
  chrome_instance_path :: "string option"
  wss_url :: "string option"
  cdp_url :: "string option"
  proxy_server :: "string option"
  proxy_username :: "string option"
  proxy_password :: "string option"
  proxy_bypass :: "string option"
  ignore_https_errors :: bool
  proxy_ca_cert :: "string option"
  new_context_config :: 'ctx
  force_keep_browser_alive :: bool
  user_data_dir :: "string option"
  proxy :: "ProxySettings option"

definition post_init :: "'ctx BrowserConfig \<Rightarrow> 'ctx BrowserConfig" where
  "post_init c =
     c\<lparr>proxy :=
         (if truthy (proxy_server c) then
            Some \<lparr>server = the (proxy_server c),
                  bypass = (if truthy (proxy_bypass c) then proxy_bypass c else None),
                  username =
                    (if truthy (proxy_username c) \<and> truthy (proxy_password c)
                     then proxy_username c else None),
                  password =
                    (if truthy (proxy_username c) \<and> truthy (proxy_password c)
                     then proxy_password c else None)\<rparr>
          else None)\<rparr>"

text \<open>Constructing a \<^verbatim>\<open>BrowserConfig\<close>: the generated \<^verbatim>\<open>__init__\<close> stores its
  arguments and calls \<^verbatim>\<open>__post_init__\<close>. Neither has a \<^verbatim>\<open>raise\<close>, and building a
  \<^verbatim>\<open>ProxySettings\<close> dictionary checks nothing.\<close>

definition BrowserConfig_new :: "'ctx BrowserConfig \<Rightarrow> exn + 'ctx BrowserConfig" where
  "BrowserConfig_new args = Inr (post_init args)"

definition default_config :: "'ctx \<Rightarrow> 'ctx BrowserConfig" where
  "default_config ctx =
     post_init
       \<lparr>headless = False, disable_security = True, extra_chromium_args = [],
        chrome_instance_path = None, wss_url = None, cdp_url = None,
        proxy_server = None, proxy_username = None, proxy_password = None,
        proxy_bypass = None, ignore_https_errors = False, proxy_ca_cert = None,
        new_context_config = ctx, force_keep_browser_alive = False,
        user_data_dir = None, proxy = None\<rparr>"

subsection \<open>The engine and the operating system\<close>

text \<open>
  The manager talks to the Playwright driver, to the local debug endpoint (through
  \<^verbatim>\<open>requests.get\<close>) and to the operating system (\<^verbatim>\<open>subprocess.Popen\<close>,
  \<^verbatim>\<open>asyncio.sleep\<close>). Each such call is recorded in a trace, the list of the calls
  made so far, and its outcome is read from a \<open>world\<close>: what the outside answers to the
  last call of a trace, given all the calls before it. Browser objects and driver objects are
  opaque; they are numbers here. Log messages and \<^verbatim>\<open>gc.collect()\<close> touch neither the
  manager's fields nor the engine and are left out.
\<close>

type_synonym handle = nat
type_synonym driver = nat

datatype call =
    Start_playwright
  | Connect_over_cdp string nat "ProxySettings option"
  | Connect string "ProxySettings option"
  | Launch bool "string list" "ProxySettings option"
  | Requests_get string nat
  | Popen "string list"
  | Sleep nat
  | Browser_close handle
  | Playwright_stop driver

record world =
  started :: "call list \<Rightarrow> exn + driver"
  connected :: "call list \<Rightarrow> exn + handle"
  probed :: "call list \<Rightarrow> exn + int"
  finished :: "call list \<Rightarrow> exn option"

record 'ctx Browser =
  config :: "'ctx BrowserConfig"
  playwright :: "driver option"
  playwright_browser :: "handle option"
  disable_security_args :: "string list"

definition Browser_init :: "'ctx BrowserConfig \<Rightarrow> 'ctx Browser" where
  "Browser_init c =
     \<lparr>config = c, playwright = None, playwright_browser = None,
      disable_security_args =
        (if disable_security c
         then [''--disable-web-security'',
               ''--disable-site-isolation-trials'',
               ''--disable-features=IsolateOrigins,site-per-process'']
         else [])\<rparr>"

text \<open>A call to the engine that yields a browser: \<^verbatim>\<open>connect_over_cdp\<close>,
  \<^verbatim>\<open>connect\<close> or \<^verbatim>\<open>launch\<close>.\<close>

definition engine_browser :: "world \<Rightarrow> call list \<Rightarrow> call \<Rightarrow> (exn + handle) \<times> call list" where
  "engine_browser w tr c = (connected w (tr @ [c]), tr @ [c])"

subsection \<open>The acquisition strategies\<close>

definition setup_cdp :: "world \<Rightarrow> 'ctx Browser \<Rightarrow> call list \<Rightarrow> (exn + handle) \<times> call list" where
  "setup_cdp w b tr =
     (if \<not> truthy (cdp_url (config b)) then (Inl (ValueError ''CDP URL is required''), tr)
      else engine_browser w tr
             (Connect_over_cdp (the (cdp_url (config b))) 20000 (proxy (config b))))"

definition setup_wss :: "world \<Rightarrow> 'ctx Browser \<Rightarrow> call list \<Rightarrow> (exn + handle) \<times> call list" where
  "setup_wss w b tr =
     (if \<not> truthy (wss_url (config b)) then (Inl (ValueError ''WSS URL is required''), tr)
      else engine_browser w tr (Connect (the (wss_url (config b))) (proxy (config b))))"

definition debug_endpoint :: string where
  "debug_endpoint = ''http://localhost:9222''"

definition version_url :: string where
  "version_url = ''http://localhost:9222/json/version''"

definition flag :: "string \<Rightarrow> string option \<Rightarrow> string list" where
  "flag prefix v = (if truthy v then [prefix @ the v] else [])"

definition instance_extra_args :: "'ctx BrowserConfig \<Rightarrow> string list" where
  "instance_extra_args c =
     flag ''--proxy-server='' (proxy_server c)
     @ flag ''--proxy-bypass-list='' (proxy_bypass c)
     @ (if ignore_https_errors c then [''--ignore-certificate-errors''] else [])
     @ flag ''--ca-certificates-path='' (proxy_ca_cert c)
     @ flag ''--user-data-dir='' (user_data_dir c)"

definition cmd_args :: "'ctx BrowserConfig \<Rightarrow> string list" where
  "cmd_args c =
     [the (chrome_instance_path c), ''--remote-debugging-port=9222'']
     @ instance_extra_args c @ extra_chromium_args c"

text \<open>The loop \<^verbatim>\<open>for _ in range(10)\<close>: probe, leave the loop on status 200, otherwise
  (also after a connection error) sleep one second. The first component is the exception
  that leaves the loop, if one does.\<close>

fun poll :: "world \<Rightarrow> nat \<Rightarrow> call list \<Rightarrow> exn option \<times> call list" where
  "poll w 0 tr = (None, tr)"
| "poll w (Suc n) tr =
     (let tr1 = tr @ [Requests_get version_url 2];
          sleep = (\<lambda>u::unit.
            let tr2 = tr1 @ [Sleep 1]
            in case finished w tr2 of Some e \<Rightarrow> (Some e, tr2) | None \<Rightarrow> poll w n tr2)
      in case probed w tr1 of
           Inr st \<Rightarrow> if st = 200 then (None, tr1) else sleep ()
         | Inl e \<Rightarrow> if e = RequestsConnectionError then sleep () else (Some e, tr1))"

definition connect_failed :: string where
  "connect_failed = '' To start chrome in Debug mode, you need to close all existing Chrome instances and try again otherwise we can not connect to the instance.''"

text \<open>The second half of \<^verbatim>\<open>_setup_browser_with_instance\<close>: start a new instance, wait
  for it and connect.\<close>

definition start_new_instance ::
  "world \<Rightarrow> 'ctx Browser \<Rightarrow> call list \<Rightarrow> (exn + handle) \<times> call list" where
  "start_new_instance w b tr =
     (let tr1 = tr @ [Popen (cmd_args (config b))]
      in case finished w tr1 of
           Some e \<Rightarrow> (Inl e, tr1)
         | None \<Rightarrow>
             (case poll w 10 tr1 of
                (Some e, tr2) \<Rightarrow> (Inl e, tr2)
              | (None, tr2) \<Rightarrow>
                  (case engine_browser w tr2
                          (Connect_over_cdp debug_endpoint 20000 (proxy (config b))) of
                     (Inr browser, tr3) \<Rightarrow> (Inr browser, tr3)
                   | (Inl e, tr3) \<Rightarrow> (Inl (RuntimeError connect_failed), tr3))))"

definition setup_browser_with_instance ::
  "world \<Rightarrow> 'ctx Browser \<Rightarrow> call list \<Rightarrow> (exn + handle) \<times> call list" where
  "setup_browser_with_instance w b tr =
     (if \<not> truthy (chrome_instance_path (config b))
      then (Inl (ValueError ''Chrome instance path is required''), tr)
      else
        let tr1 = tr @ [Requests_get version_url 2]
        in case probed w tr1 of
             Inl e \<Rightarrow>
               if e = RequestsConnectionError then start_new_instance w b tr1 else (Inl e, tr1)
           | Inr st \<Rightarrow>
               if st = 200 then
                 (case engine_browser w tr1 (Connect_over_cdp debug_endpoint 20000 None) of
                    (Inr browser, tr2) \<Rightarrow> (Inr browser, tr2)
                  | (Inl e, tr2) \<Rightarrow>
                      if e = RequestsConnectionError then start_new_instance w b tr2
                      else (Inl e, tr2))
               else start_new_instance w b tr1)"

definition standard_args :: "'ctx Browser \<Rightarrow> string list" where
  "standard_args b =
     [''--no-sandbox'',
      ''--disable-blink-features=AutomationControlled'',
      ''--disable-infobars'',
      ''--disable-background-timer-throttling'',
      ''--disable-popup-blocking'',
      ''--disable-backgrounding-occluded-windows'',
      ''--disable-renderer-backgrounding'',
      ''--disable-window-activation'',
      ''--disable-focus-on-load'',
      ''--no-first-run'',
      ''--no-default-browser-check'',
      ''--no-startup-window'',
      ''--window-position=0,0'']
     @ disable_security_args b
     @ (if ignore_https_errors (config b) then [''--ignore-certificate-errors''] else [])
     @ flag ''--ca-certificates-path='' (proxy_ca_cert (config b))
     @ flag ''--user-data-dir='' (user_data_dir (config b))
     @ extra_chromium_args (config b)"

definition setup_standard_browser ::
  "world \<Rightarrow> 'ctx Browser \<Rightarrow> call list \<Rightarrow> (exn + handle) \<times> call list" where
  "setup_standard_browser w b tr =
     engine_browser w tr (Launch (headless (config b)) (standard_args b) (proxy (config b)))"

text \<open>\<^verbatim>\<open>_setup_browser\<close>: its \<^verbatim>\<open>except\<close> clause logs the exception and raises it
  again.\<close>

definition setup_browser :: "world \<Rightarrow> 'ctx Browser \<Rightarrow> call list \<Rightarrow> (exn + handle) \<times> call list" where
  "setup_browser w b tr =
     (if truthy (cdp_url (config b)) then setup_cdp w b tr
      else if truthy (wss_url (config b)) then setup_wss w b tr
      else if truthy (chrome_instance_path (config b)) then setup_browser_with_instance w b tr
      else setup_standard_browser w b tr)"

subsection \<open>Acquiring and closing\<close>

text \<open>\<^verbatim>\<open>_init\<close> is wrapped by \<^verbatim>\<open>time_execution_async\<close>, a decorator of another
  module that measures the time of the call; it is taken to pass the result through.\<close>

definition init ::
  "world \<Rightarrow> 'ctx Browser \<Rightarrow> call list \<Rightarrow> (exn + handle) \<times> 'ctx Browser \<times> call list" where
  "init w b tr =
     (let tr1 = tr @ [Start_playwright]
      in case started w tr1 of
           Inl e \<Rightarrow> (Inl e, b, tr1)
         | Inr pw \<Rightarrow>
             (case setup_browser w b tr1 of
                (Inl e, tr2) \<Rightarrow> (Inl e, b, tr2)
              | (Inr browser, tr2) \<Rightarrow>
                  (Inr browser, b\<lparr>playwright := Some pw, playwright_browser := Some browser\<rparr>, tr2)))"

definition get_playwright_browser ::
  "world \<Rightarrow> 'ctx Browser \<Rightarrow> call list \<Rightarrow> (exn + handle) \<times> 'ctx Browser \<times> call list" where
  "get_playwright_browser w b tr =
     (case playwright_browser b of
        None \<Rightarrow> init w b tr
      | Some browser \<Rightarrow> (Inr browser, b, tr))"

text \<open>\<^verbatim>\<open>close\<close>: the calls of the \<^verbatim>\<open>try\<close> block, which an exception leaves at once
  (the \<^verbatim>\<open>except\<close> clause only logs it), and then the \<^verbatim>\<open>finally\<close> block. A browser
  object and a driver object are true in \<^verbatim>\<open>if self.playwright_browser:\<close> and
  \<^verbatim>\<open>if self.playwright:\<close>, so the tests ask whether the field is \<^verbatim>\<open>None\<close>.\<close>

definition close_calls :: "world \<Rightarrow> 'ctx Browser \<Rightarrow> call list \<Rightarrow> call list" where
  "close_calls w b tr =
     (if \<not> force_keep_browser_alive (config b) then
        (let stop = (\<lambda>t. case playwright b of None \<Rightarrow> t | Some pw \<Rightarrow> t @ [Playwright_stop pw])
         in case playwright_browser b of
              None \<Rightarrow> stop tr
            | Some browser \<Rightarrow>
                (let tr1 = tr @ [Browser_close browser]
                 in case finished w tr1 of Some e \<Rightarrow> tr1 | None \<Rightarrow> stop tr1))
      else tr)"

definition close :: "world \<Rightarrow> 'ctx Browser \<Rightarrow> call list \<Rightarrow> 'ctx Browser \<times> call list" where
  "close w b tr = (b\<lparr>playwright_browser := None, playwright := None\<rparr>, close_calls w b tr)"

section \<open>The round trip as the specification words it\<close>

text \<open>
  The specification compares a restored body with the byte encoding of the text that was
  persisted for it. \<open>persisted_response\<close> is a response seen that way: each body is
  replaced by the encoding of the text \<^verbatim>\<open>to_json\<close> writes for a body,
  \<^verbatim>\<open>str(body)\<close>, and every other field is kept.
\<close>

definition persisted_response :: "HTTPResponseData \<Rightarrow> HTTPResponseData" where
  "persisted_response r = r\<lparr>body := map_option (\<lambda>b. encode (str_bytes b)) (body r)\<rparr>"

definition persisted_message :: "HTTPMessage \<Rightarrow> HTTPMessage" where
  "persisted_message m = m\<lparr>response := map_option persisted_response (response m)\<rparr>"

definition persisted_session :: "HTTPMessageSession \<Rightarrow> HTTPMessageSession" where
  "persisted_session s = s\<lparr>messages := map persisted_message (messages s)\<rparr>"

text \<open>The responses that \<^verbatim>\<open>to_json\<close> writes in full: an empty body and an empty
  error message are false in the tests of \<^verbatim>\<open>to_json\<close> and are not written, and a body
  next to an error message is not written either.\<close>

definition persistable :: "HTTPResponseData \<Rightarrow> bool" where
  "persistable r =
     (body r \<noteq> Some [] \<and> body_error r \<noteq> Some [] \<and> (body r = None \<or> body_error r = None))"

definition round_trip_ready :: "nat \<Rightarrow> HTTPMessageSession \<Rightarrow> bool" where
  "round_trip_ready max_str_digits s =
     list_all
       (\<lambda>m. case response m of
               None \<Rightarrow> True
             | Some r \<Rightarrow>
                 \<not> is_redirect (status r) \<and> persistable r
                 \<and> get_response_size max_str_digits r \<noteq> Inl Int_ValueError)
       (messages s)"

section \<open>Concrete inputs\<close>

text \<open>A response as \<^verbatim>\<open>from_pw\<close> builds it from the engine's response object.\<close>

definition ex_fresh :: HTTPResponseData where
  "ex_fresh =
     from_pw \<lparr>pw_url = ''http://example.test/'', pw_status = 200,
              pw_headers = [(''content-type'', ''text/html'')],
              pw_has_parent_frame = False\<rparr>"

definition ex_request :: HTTPRequestData where
  "ex_request =
     \<lparr>req_method = ''GET'', req_url = ''http://example.test/'',
      req_headers = [(''accept'', ''*/*'')], post_data = None,
      redirected_from_url = None, redirected_to_url = None, req_is_iframe = False\<rparr>"

text \<open>A response with status 200 and a given body and body error; the bytes
  \<open>[0x68, 0x69]\<close> are the text \<^verbatim>\<open>hi\<close>.\<close>

definition ex_response :: "bytes option \<Rightarrow> string option \<Rightarrow> HTTPResponseData" where
  "ex_response b e =
     \<lparr>url = ''http://example.test/'', status = 200,
      headers = [(''content-type'', ''Text/HTML''), (''content-length'', ''2'')],
      is_iframe = False, body = b, body_error = e\<rparr>"

definition ex_response_json :: "(string \<times> json) list" where
  "ex_response_json =
     [(''url'', JStr ''http://example.test/''),
      (''status'', JInt 200),
      (''headers'', JDict [(''content-type'', JStr ''Text/HTML''),
                           (''content-length'', JStr ''2'')]),
      (''content_type'', JStr ''text/html''),
      (''content_length'', JInt 2),
      (''is_iframe'', JBool False)]"

text \<open>A redirect with a captured body.\<close>

definition ex_redirect :: HTTPResponseData where
  "ex_redirect =
     \<lparr>url = ''http://example.test/old'', status = 301,
      headers = [(''location'', ''/new'')],
      is_iframe = False, body = Some [0x68, 0x69], body_error = None\<rparr>"

definition ex_session :: HTTPMessageSession where
  "ex_session =
     \<lparr>messages =
        [\<lparr>request = ex_request, response = Some (ex_response (Some [0x68, 0x69]) None)\<rparr>,
         \<lparr>request = ex_request, response = Some (ex_response None (Some ''timeout''))\<rparr>,
         \<lparr>request = ex_request, response = None\<rparr>],
      name = ''capture''\<rparr>"

text \<open>The bytes \<open>[0x62, 0x27, 0x68, 0x69, 0x27]\<close> are the text \<^verbatim>\<open>b'hi'\<close>.\<close>

definition ex_session_restored :: HTTPMessageSession where
  "ex_session_restored =
     \<lparr>messages =
        [\<lparr>request = ex_request,
          response = Some (ex_response (Some [0x62, 0x27, 0x68, 0x69, 0x27]) None)\<rparr>,
         \<lparr>request = ex_request, response = Some (ex_response None (Some ''timeout''))\<rparr>,
         \<lparr>request = ex_request, response = None\<rparr>],
      name = ''capture''\<rparr>"

text \<open>A session with a response whose body is the text \<^verbatim>\<open>hi\<close> and a response whose
  body is empty, and what \<^verbatim>\<open>from_json\<close> restores of it.\<close>

definition ex_lossy :: HTTPMessageSession where
  "ex_lossy =
     \<lparr>messages =
        [\<lparr>request = ex_request, response = Some (ex_response (Some [0x68, 0x69]) None)\<rparr>,
         \<lparr>request = ex_request, response = Some (ex_response (Some []) None)\<rparr>],
      name = ''capture''\<rparr>"

definition ex_lossy_restored :: HTTPMessageSession where
  "ex_lossy_restored =
     \<lparr>messages =
        [\<lparr>request = ex_request,
          response = Some (ex_response (Some [0x62, 0x27, 0x68, 0x69, 0x27]) None)\<rparr>,
         \<lparr>request = ex_request, response = Some (ex_response None None)\<rparr>],
      name = ''capture''\<rparr>"

text \<open>A configuration with the defaults of the dataclass, a world in which every call
  succeeds (the driver is 1, the browser is 7, the debug endpoint answers 200), and managers
  built on them.\<close>

definition ex_config :: "unit BrowserConfig" where
  "ex_config = default_config ()"

definition ex_world :: world where
  "ex_world =
     \<lparr>started = (\<lambda>tr. Inr 1), connected = (\<lambda>tr. Inr 7),
      probed = (\<lambda>tr. Inr 200), finished = (\<lambda>tr. None)\<rparr>"

definition ex_partial :: "unit BrowserConfig" where
  "ex_partial =
     ex_config\<lparr>proxy_server := Some ''http://localhost:3128'',
               proxy_username := Some ''user'', proxy_password := None\<rparr>"

definition ex_partial_bypass :: "unit BrowserConfig" where
  "ex_partial_bypass =
     ex_config\<lparr>proxy_server := Some ''http://localhost:3128'',
               proxy_password := Some ''secret'', proxy_bypass := Some ''localhost''\<rparr>"

definition ex_idle :: "unit Browser" where
  "ex_idle = Browser_init ex_config"

definition ex_acquired :: "unit Browser" where
  "ex_acquired = ex_idle\<lparr>playwright := Some 1, playwright_browser := Some 7\<rparr>"

definition ex_trace :: "call list" where
  "ex_trace = [Start_playwright, Launch False (standard_args ex_idle) None]"

definition ex_live :: "unit Browser" where
  "ex_live =
     (Browser_init (ex_config\<lparr>force_keep_browser_alive := True\<rparr>))
       \<lparr>playwright := Some 1, playwright_browser := Some 7\<rparr>"

definition ex_endpoints :: "string option \<Rightarrow> string option \<Rightarrow> string option \<Rightarrow> unit Browser" where
  "ex_endpoints cdp wss path =
     Browser_init (ex_config\<lparr>cdp_url := cdp, wss_url := wss, chrome_instance_path := path\<rparr>)"

section \<open>Properties of the traffic model\<close>

lemma and_then_Inr [simp]: "and_then (Inr x) f = f x"
  by (simp add: and_then_def)

lemma and_then_Inl [simp]: "and_then (Inl e) f = Inl e"
  by (simp add: and_then_def)

lemma and_then_eq_Inr: "and_then m f = Inr y \<longleftrightarrow> (\<exists>x. m = Inr x \<and> f x = Inr y)"
  by (cases m) simp_all

lemmas ex_defs = ex_fresh_def ex_request_def ex_response_def ex_response_json_def
  ex_redirect_def ex_session_def ex_session_restored_def ex_lossy_def
  ex_lossy_restored_def

lemmas builtin_defs = truthy_def hexdigits_def hex_escape_def bytes_quote_def
  bytes_repr_byte_def str_bytes_def encode_char_def encode_def str_quote_def printable_def
  repr_char_def repr_str_def str_dict_def str_int_def lower_char_def lower_def
  is_decimal_char_def is_digit_char_def isdigit_def decimal_value_def int_of_digits_def
  digits.simps char_of_eq_iff Let_def

lemmas json_defs = json_of_headers_def json_of_opt_str_def json_keys_def subscript_def
  as_str_def as_opt_str_def as_int_def as_bool_def as_headers_def json_truthy_def iterate_def

lemmas http_defs = request_to_json_def request_from_json_def get_content_type_def
  get_response_size_def is_redirect_def response_to_json_def response_from_json_def
  message_to_json_def message_from_json_def session_to_json_def session_from_json_def
  round_trip_def

subsection \<open>Reading the body\<close>

text \<open>
  C8. A response in which both \<^verbatim>\<open>body\<close> and \<^verbatim>\<open>body_error\<close> are \<^verbatim>\<open>None\<close> has no
  body to return: \<^verbatim>\<open>get_body\<close> raises \<^verbatim>\<open>Exception("Response body not available")\<close>
  and returns no empty body. A response that \<^verbatim>\<open>from_pw\<close> has just built from the
  engine's response object is such a response.
\<close>

theorem get_body_not_available:
  assumes "body r = None" and "body_error r = None"
  shows "get_body r = (Inl (Exception ''Response body not available''), r)
       \<and> get_body (from_pw x) = (Inl (Exception ''Response body not available''), from_pw x)"
  using assms by (simp add: get_body_def from_pw_def truthy_def)

theorem get_body_not_available_witness:
  "body ex_fresh = None \<and> body_error ex_fresh = None
   \<and> get_body ex_fresh = (Inl (Exception ''Response body not available''), ex_fresh)"
proof -
  have h1: "body ex_fresh = None" and h2: "body_error ex_fresh = None"
    by (simp_all add: ex_fresh_def from_pw_def)
  from get_body_not_available [OF h1 h2] h1 h2 show ?thesis by simp
qed

text \<open>
  \<^verbatim>\<open>get_body\<close> tests the truth value of \<^verbatim>\<open>body_error\<close>, and the empty string is
  false. A response whose \<^verbatim>\<open>body_error\<close> is set to the empty string (the text of an
  exception raised without a message) and whose body is absent does not raise the stored
  message: it raises \<^verbatim>\<open>Exception("Response body not available")\<close>.
\<close>

theorem get_body_empty_error_counterexample:
  "body_error (ex_response None (Some [])) = Some []
   \<and> get_body (ex_response None (Some []))
       = (Inl (Exception ''Response body not available''), ex_response None (Some []))
   \<and> fst (get_body (ex_response None (Some []))) \<noteq> Inl (Exception [])"
  by (simp add: get_body_def ex_response_def truthy_def)

text \<open>
  C7, amended. For every response whose \<^verbatim>\<open>body_error\<close> is set to a non-empty message,
  \<^verbatim>\<open>get_body\<close> raises an exception that carries exactly that message, whatever
  \<^verbatim>\<open>body\<close> holds. A \<^verbatim>\<open>body_error\<close> set to the empty string counts as none:
  \<^verbatim>\<open>get_body\<close> then returns the body if there is one, and raises
  \<^verbatim>\<open>Exception("Response body not available")\<close> if there is none. In both cases the call
  leaves the stored fields as they are, so the next call, and every later one, has the same
  outcome; no call fetches anything.
\<close>

theorem get_body_raises_stored_error:
  assumes "body_error r = Some msg"
  shows "(msg \<noteq> [] \<longrightarrow> get_body r = (Inl (Exception msg), r))
       \<and> (msg = [] \<longrightarrow>
            get_body r =
              (case body r of
                 None \<Rightarrow> Inl (Exception ''Response body not available'')
               | Some b \<Rightarrow> Inr b, r))
       \<and> snd (get_body r) = r
       \<and> get_body (snd (get_body r)) = get_body r"
  using assms by (simp add: get_body_def truthy_def split: option.splits)

theorem get_body_raises_stored_error_witness:
  "body_error (ex_response None (Some ''timeout'')) = Some ''timeout'' \<and> ''timeout'' \<noteq> []
   \<and> get_body (ex_response None (Some ''timeout''))
       = (Inl (Exception ''timeout''), ex_response None (Some ''timeout''))
   \<and> body_error (ex_response (Some [0x68, 0x69]) (Some [])) = Some []
   \<and> get_body (ex_response (Some [0x68, 0x69]) (Some []))
       = (Inr [0x68, 0x69], ex_response (Some [0x68, 0x69]) (Some []))"
proof -
  have h: "body_error (ex_response None (Some ''timeout'')) = Some ''timeout''"
    by (simp add: ex_response_def)
  have n: "''timeout'' \<noteq> []" by simp
  have e: "body_error (ex_response (Some [0x68, 0x69]) (Some [])) = Some []"
    and b: "body (ex_response (Some [0x68, 0x69]) (Some [])) = Some [0x68, 0x69]"
    by (simp_all add: ex_response_def)
  from get_body_raises_stored_error [OF h] n
  have 1: "get_body (ex_response None (Some ''timeout''))
       = (Inl (Exception ''timeout''), ex_response None (Some ''timeout''))"
    by blast
  from get_body_raises_stored_error [OF e] b
  have 2: "get_body (ex_response (Some [0x68, 0x69]) (Some []))
       = (Inr [0x68, 0x69], ex_response (Some [0x68, 0x69]) (Some []))"
    by simp
  from h n e 1 2 show ?thesis by simp
qed

subsection \<open>The size of a response\<close>

text \<open>What \<^verbatim>\<open>get_response_size\<close> returns when it returns: 0 without a
  \<^verbatim>\<open>content-length\<close> header that passes \<^verbatim>\<open>isdigit()\<close>, and the value of the header
  when it is made of decimal digits (and is no longer than the limit of \<^verbatim>\<open>int\<close>).\<close>

lemma get_response_size_zero:
  assumes "headers r = [] \<or> map_of (headers r) ''content-length'' = None
           \<or> (\<exists>v. map_of (headers r) ''content-length'' = Some v \<and> \<not> isdigit v)"
  shows "get_response_size lim r = Inr 0"
  using assms by (auto simp: get_response_size_def)

lemma get_response_size_decimal:
  assumes "map_of (headers r) ''content-length'' = Some v"
    and "v \<noteq> []" and "list_all is_decimal_char v" and "lim = 0 \<or> length v \<le> lim"
  shows "get_response_size lim r = Inr (decimal_value v)"
proof -
  from assms(1) have "headers r \<noteq> []" by auto
  moreover from assms(2,3) have "isdigit v"
    by (simp add: isdigit_def is_digit_char_def list_all_iff)
  ultimately show ?thesis
    using assms by (auto simp: get_response_size_def int_of_digits_def)
qed

text \<open>
  C10. The claim is that \<^verbatim>\<open>get_response_size\<close> returns the integer value of a
  \<^verbatim>\<open>content-length\<close> header made of digits and 0 in every other case. The source guards
  \<^verbatim>\<open>int(content_length)\<close> with \<^verbatim>\<open>content_length.isdigit()\<close>, which also holds for the
  superscript digits, and \<^verbatim>\<open>int\<close> does not read those: for the header value made of the
  one character U+00B2 (superscript two) the method returns nothing and raises
  \<^verbatim>\<open>ValueError\<close>.
\<close>

theorem get_response_size_superscript_digit:
  "isdigit [CHR 0xB2]
   \<and> get_response_size lim
        \<lparr>url = ''http://example.test/'', status = 200,
         headers = [(''content-length'', [CHR 0xB2])],
         is_iframe = False, body = None, body_error = None\<rparr> = Inl Int_ValueError"
  by (simp add: get_response_size_def isdigit_def is_digit_char_def is_decimal_char_def
      int_of_digits_def)

subsection \<open>Serialising a response\<close>

text \<open>
  C6. For every response whose status lies in [300, 400), a dictionary that
  \<^verbatim>\<open>to_json\<close> returns has the six keys of every response and no others, so neither
  \<^verbatim>\<open>body\<close> nor \<^verbatim>\<open>body_error\<close>, whatever body or body error the response holds. Its
  rendering by \<^verbatim>\<open>to_str\<close> is the head of the rendering followed by
  \<^verbatim>\<open>[Redirect response - no body]\<close>; the body and the body error are not read, so the
  rendering is the same for every body and body error.
\<close>

theorem redirect_has_no_body:
  assumes "is_redirect (status r)"
  shows "(\<forall>j. response_to_json lim r = Inr j \<longrightarrow>
            json_keys j = [''url'', ''status'', ''headers'', ''content_type'',
                           ''content_length'', ''is_iframe'']
            \<and> ''body'' \<notin> set (json_keys j) \<and> ''body_error'' \<notin> set (json_keys j))
       \<and> to_str r = to_str_head r @ ''[Redirect response - no body]''
       \<and> to_str (r\<lparr>body := b, body_error := e\<rparr>) = to_str r"
  using assms
  by (auto simp: response_to_json_def and_then_eq_Inr json_keys_def to_str_def to_str_head_def)

theorem redirect_has_no_body_witness:
  "is_redirect (status ex_redirect) \<and> body ex_redirect = Some [0x68, 0x69]
   \<and> response_to_json 4300 ex_redirect =
       Inr (JDict [(''url'', JStr ''http://example.test/old''),
                   (''status'', JInt 301),
                   (''headers'', JDict [(''location'', JStr ''/new'')]),
                   (''content_type'', JStr []),
                   (''content_length'', JInt 0),
                   (''is_iframe'', JBool False)])
   \<and> to_str ex_redirect =
       ''[Response]: http://example.test/old 301'' @ [CHR 0x0A]
       @ ''{'' @ [CHR 0x27] @ ''location'' @ [CHR 0x27] @ '': ''
       @ [CHR 0x27] @ ''/new'' @ [CHR 0x27] @ ''}'' @ [CHR 0x0A]
       @ ''[Redirect response - no body]''"
proof -
  have h: "is_redirect (status ex_redirect)"
    by (simp add: ex_redirect_def is_redirect_def)
  have j: "response_to_json 4300 ex_redirect =
       Inr (JDict [(''url'', JStr ''http://example.test/old''),
                   (''status'', JInt 301),
                   (''headers'', JDict [(''location'', JStr ''/new'')]),
                   (''content_type'', JStr []),
                   (''content_length'', JInt 0),
                   (''is_iframe'', JBool False)])"
    by (simp add: ex_redirect_def http_defs json_defs builtin_defs)
  have s: "to_str_head ex_redirect =
       ''[Response]: http://example.test/old 301'' @ [CHR 0x0A]
       @ ''{'' @ [CHR 0x27] @ ''location'' @ [CHR 0x27] @ '': ''
       @ [CHR 0x27] @ ''/new'' @ [CHR 0x27] @ ''}'' @ [CHR 0x0A]"
    by (simp add: ex_redirect_def to_str_head_def builtin_defs)
  from redirect_has_no_body [OF h, of 4300] have "to_str ex_redirect =
       to_str_head ex_redirect @ ''[Redirect response - no body]''" by blast
  with h j s show ?thesis by (simp add: ex_redirect_def)
qed

text \<open>
  \<^verbatim>\<open>to_json\<close> tests the truth value of \<^verbatim>\<open>body_error\<close>. With \<^verbatim>\<open>body_error\<close> set
  to the empty string and a body set as well, the error does not take precedence: the
  dictionary holds \<^verbatim>\<open>body\<close> and no \<^verbatim>\<open>body_error\<close>.
\<close>

theorem to_json_empty_error_counterexample:
  "body (ex_response (Some [0x68, 0x69]) (Some [])) \<noteq> None
   \<and> body_error (ex_response (Some [0x68, 0x69]) (Some [])) \<noteq> None
   \<and> response_to_json 4300 (ex_response (Some [0x68, 0x69]) (Some []))
       = Inr (JDict (ex_response_json
                     @ [(''body'', JStr [CHR ''b'', CHR 0x27, CHR ''h'', CHR ''i'', CHR 0x27])]))
   \<and> ''body'' \<in> set (json_keys (JDict (ex_response_json
                     @ [(''body'', JStr [CHR ''b'', CHR 0x27, CHR ''h'', CHR ''i'', CHR 0x27])])))"
  by (simp add: ex_defs http_defs json_defs builtin_defs)

text \<open>
  C9, amended. For every response, a dictionary that \<^verbatim>\<open>to_json\<close> returns holds at most
  one of the keys \<^verbatim>\<open>body\<close> and \<^verbatim>\<open>body_error\<close>. When \<^verbatim>\<open>body_error\<close> is set to a
  non-empty message, \<^verbatim>\<open>body\<close> is left out whatever the body is, and \<^verbatim>\<open>body_error\<close>
  holds the message unless the status is a redirect, for which it is left out too. When
  \<^verbatim>\<open>body_error\<close> is absent or set to the empty string, \<^verbatim>\<open>body_error\<close> is left out,
  and \<^verbatim>\<open>body\<close> holds \<^verbatim>\<open>str(body)\<close> if the body is not empty and the status is not a
  redirect, and is left out if the body is absent or empty or the status is a redirect.
\<close>

theorem to_json_body_keys:
  assumes "response_to_json lim r = Inr j"
  shows "\<not> (''body'' \<in> set (json_keys j) \<and> ''body_error'' \<in> set (json_keys j))
       \<and> (\<forall>msg. body_error r = Some msg \<and> msg \<noteq> [] \<longrightarrow>
            ''body'' \<notin> set (json_keys j)
            \<and> (if is_redirect (status r) then ''body_error'' \<notin> set (json_keys j)
               else subscript j ''body_error'' = Inr (JStr msg)))
       \<and> (body_error r = None \<or> body_error r = Some [] \<longrightarrow>
            ''body_error'' \<notin> set (json_keys j)
            \<and> (\<forall>b. body r = Some b \<and> b \<noteq> [] \<and> \<not> is_redirect (status r) \<longrightarrow>
                  subscript j ''body'' = Inr (JStr (str_bytes b)))
            \<and> (body r = None \<or> body r = Some [] \<or> is_redirect (status r) \<longrightarrow>
                  ''body'' \<notin> set (json_keys j)))"
  using assms
  by (auto simp: response_to_json_def and_then_eq_Inr json_keys_def subscript_def Let_def
      truthy_def split: if_splits)

theorem to_json_body_keys_witness:
  "response_to_json 4300 (ex_response (Some [0x68, 0x69]) (Some ''timeout''))
     = Inr (JDict (ex_response_json @ [(''body_error'', JStr ''timeout'')]))
   \<and> body_error (ex_response (Some [0x68, 0x69]) (Some ''timeout'')) = Some ''timeout''
   \<and> ''timeout'' \<noteq> []
   \<and> ''body'' \<notin> set (json_keys (JDict (ex_response_json @ [(''body_error'', JStr ''timeout'')])))
   \<and> subscript (JDict (ex_response_json @ [(''body_error'', JStr ''timeout'')])) ''body_error''
       = Inr (JStr ''timeout'')
   \<and> response_to_json 4300 (ex_response (Some [0x68, 0x69]) (Some []))
       = Inr (JDict (ex_response_json
                     @ [(''body'', JStr [CHR ''b'', CHR 0x27, CHR ''h'', CHR ''i'', CHR 0x27])]))
   \<and> body_error (ex_response (Some [0x68, 0x69]) (Some [])) = Some []
   \<and> subscript (JDict (ex_response_json
                     @ [(''body'', JStr [CHR ''b'', CHR 0x27, CHR ''h'', CHR ''i'', CHR 0x27])]))
         ''body''
       = Inr (JStr (str_bytes [0x68, 0x69]))
   \<and> ''body_error'' \<notin> set (json_keys (JDict (ex_response_json
                     @ [(''body'', JStr [CHR ''b'', CHR 0x27, CHR ''h'', CHR ''i'', CHR 0x27])])))"
proof -
  have j: "response_to_json 4300 (ex_response (Some [0x68, 0x69]) (Some ''timeout''))
     = Inr (JDict (ex_response_json @ [(''body_error'', JStr ''timeout'')]))"
    by (simp add: ex_defs http_defs json_defs builtin_defs)
  have e: "body_error (ex_response (Some [0x68, 0x69]) (Some ''timeout'')) = Some ''timeout''"
    and s: "\<not> is_redirect (status (ex_response (Some [0x68, 0x69]) (Some ''timeout'')))"
    by (simp_all add: ex_response_def is_redirect_def)
  from to_json_body_keys [OF j] e s
  have 1: "''body'' \<notin> set (json_keys (JDict (ex_response_json @ [(''body_error'', JStr ''timeout'')])))
      \<and> subscript (JDict (ex_response_json @ [(''body_error'', JStr ''timeout'')])) ''body_error''
          = Inr (JStr ''timeout'')"
    by simp
  have k: "response_to_json 4300 (ex_response (Some [0x68, 0x69]) (Some []))
       = Inr (JDict (ex_response_json
                     @ [(''body'', JStr [CHR ''b'', CHR 0x27, CHR ''h'', CHR ''i'', CHR 0x27])]))"
    by (simp add: ex_defs http_defs json_defs builtin_defs)
  have n: "body_error (ex_response (Some [0x68, 0x69]) (Some [])) = Some []"
    and b: "body (ex_response (Some [0x68, 0x69]) (Some [])) = Some [0x68, 0x69]"
    and t: "\<not> is_redirect (status (ex_response (Some [0x68, 0x69]) (Some [])))"
    by (simp_all add: ex_response_def is_redirect_def)
  from to_json_body_keys [OF k] n b t
  have 2: "subscript (JDict (ex_response_json
                     @ [(''body'', JStr [CHR ''b'', CHR 0x27, CHR ''h'', CHR ''i'', CHR 0x27])]))
         ''body''
       = Inr (JStr (str_bytes [0x68, 0x69]))
     \<and> ''body_error'' \<notin> set (json_keys (JDict (ex_response_json
                     @ [(''body'', JStr [CHR ''b'', CHR 0x27, CHR ''h'', CHR ''i'', CHR 0x27])])))"
    by simp
  from j e 1 k n 2 show ?thesis by simp
qed

subsection \<open>The round trip of a session\<close>

lemma as_headers_json_of_headers: "as_headers field (json_of_headers h) = Inr h"
proof -
  have "map_result (\<lambda>(k, x). and_then (as_str field x) (\<lambda>s. Inr (k, s)))
          (map (\<lambda>(k, v). (k, JStr v)) h) = Inr h"
    by (induction h) (auto simp: as_str_def)
  then show ?thesis by (simp add: as_headers_def json_of_headers_def)
qed

lemma as_opt_str_json_of_opt_str: "as_opt_str field (json_of_opt_str x) = Inr x"
  by (cases x) (simp_all add: as_opt_str_def json_of_opt_str_def)

text \<open>A request comes back as it was.\<close>

lemma request_round_trip: "request_from_json (request_to_json r) = Inr r"
  by (simp add: request_from_json_def request_to_json_def subscript_def
      as_headers_json_of_headers as_opt_str_json_of_opt_str as_str_def as_bool_def)

lemma response_to_json_returns:
  assumes "get_response_size lim r \<noteq> Inl Int_ValueError"
  shows "\<exists>j. response_to_json lim r = Inr j"
proof -
  have "\<exists>n. get_response_size lim r = Inr n"
    using assms
    by (auto simp: get_response_size_def int_of_digits_def split: option.splits if_splits)
  then show ?thesis by (auto simp: response_to_json_def Let_def)
qed

lemma response_to_json_truthy:
  assumes "response_to_json lim r = Inr j"
  shows "json_truthy j"
  using assms
  by (auto simp: response_to_json_def and_then_eq_Inr json_truthy_def Let_def split: if_splits)

text \<open>What \<^verbatim>\<open>from_json\<close> restores of a response: the body and the body error that
  \<^verbatim>\<open>to_json\<close> has written, and the other fields.\<close>

lemma response_restored:
  assumes "response_to_json lim r = Inr j"
  shows "response_from_json j =
           Inr (r\<lparr>body :=
                    (if is_redirect (status r) \<or> truthy (body_error r) \<or> \<not> truthy (body r)
                     then None else Some (encode (str_bytes (the (body r))))),
                  body_error :=
                    (if is_redirect (status r) \<or> \<not> truthy (body_error r)
                     then None else body_error r)\<rparr>)"
  using assms
  by (cases r)
     (auto simp: response_to_json_def and_then_eq_Inr response_from_json_def subscript_def
        as_headers_json_of_headers as_opt_str_def as_str_def as_bool_def as_int_def Let_def
        truthy_def split: if_splits option.splits)

text \<open>A response that is not a redirect comes back as its persisted view exactly when it
  is persistable.\<close>

lemma response_round_trip:
  assumes "response_to_json lim r = Inr j" and "\<not> is_redirect (status r)"
  shows "response_from_json j = Inr (persisted_response r) \<longleftrightarrow> persistable r"
  using assms(2) unfolding response_restored [OF assms(1)]
  by (cases r)
     (auto simp: persisted_response_def persistable_def truthy_def split: option.splits)

lemma message_round_trip:
  assumes "\<And>r. response m = Some r \<Longrightarrow>
             \<not> is_redirect (status r) \<and> persistable r
             \<and> get_response_size lim r \<noteq> Inl Int_ValueError"
  shows "and_then (message_to_json lim m) message_from_json = Inr (persisted_message m)"
proof (cases "response m")
  case None
  then show ?thesis
    by (simp add: message_to_json_def message_from_json_def subscript_def
        request_round_trip persisted_message_def)
next
  case (Some r)
  with assms have ok: "\<not> is_redirect (status r)" "persistable r"
    "get_response_size lim r \<noteq> Inl Int_ValueError" by auto
  from response_to_json_returns [OF ok(3)] obtain j where j: "response_to_json lim r = Inr j" ..
  from response_round_trip [OF j ok(1)] ok(2)
  have "response_from_json j = Inr (persisted_response r)" by simp
  with response_to_json_truthy [OF j] Some j
  show ?thesis
    by (simp add: message_to_json_def message_from_json_def subscript_def
        request_round_trip persisted_message_def)
qed

lemma messages_round_trip:
  assumes "\<And>m r. m \<in> set ms \<Longrightarrow> response m = Some r \<Longrightarrow>
             \<not> is_redirect (status r) \<and> persistable r
             \<and> get_response_size lim r \<noteq> Inl Int_ValueError"
  shows "and_then (map_result (message_to_json lim) ms) (map_result message_from_json)
         = Inr (map persisted_message ms)"
  using assms
proof (induction ms)
  case Nil
  then show ?case by simp
next
  case (Cons m ms)
  have m: "and_then (message_to_json lim m) message_from_json = Inr (persisted_message m)"
    by (rule message_round_trip) (use Cons.prems in auto)
  have ms: "and_then (map_result (message_to_json lim) ms) (map_result message_from_json)
            = Inr (map persisted_message ms)"
    by (rule Cons.IH) (use Cons.prems in auto)
  from m obtain j where j: "message_to_json lim m = Inr j"
    "message_from_json j = Inr (persisted_message m)"
    by (auto simp: and_then_eq_Inr)
  from ms obtain js where js: "map_result (message_to_json lim) ms = Inr js"
    "map_result message_from_json js = Inr (map persisted_message ms)"
    by (auto simp: and_then_eq_Inr)
  from j js show ?case by simp
qed

text \<open>
  The claim as it is worded fails on a session of two responses with status 200 whose bodies
  are decodable text, \<^verbatim>\<open>hi\<close> and the empty text. \<^verbatim>\<open>to_json\<close> writes
  \<^verbatim>\<open>str(body)\<close> for the first, and the restored body is the five bytes \<^verbatim>\<open>b'hi'\<close>,
  not the two bytes it was. It tests the truth value of the second body and writes nothing
  for it, and the restored response has no body at all. So the restored session is neither
  the original nor the original with its bodies replaced by the encoding of their persisted
  text.
\<close>

theorem round_trip_counterexample:
  "round_trip 4300 ex_lossy = Inr ex_lossy_restored
   \<and> ex_lossy_restored \<noteq> ex_lossy
   \<and> ex_lossy_restored \<noteq> persisted_session ex_lossy"
  by (simp add: ex_defs http_defs json_defs builtin_defs persisted_session_def
      persisted_message_def persisted_response_def)

text \<open>
  C1, amended. Take a session in which every response has a status outside [300, 400), holds
  a non-empty body or a non-empty body error or neither (never both, and neither of them
  empty), and has headers on which \<^verbatim>\<open>get_response_size\<close> does not raise.
  Then \<^verbatim>\<open>to_json\<close> returns, and \<^verbatim>\<open>from_json\<close> of its result is a session with the same
  name, the same number of messages in the same order, the same requests, and responses
  equal to the originals in every field but the body: a body \<open>b\<close> comes back as the byte
  encoding of the persisted text \<^verbatim>\<open>str(b)\<close>, the literal \<^verbatim>\<open>b'...'\<close>, not as \<open>b\<close>.
\<close>

theorem round_trip_persisted:
  assumes "round_trip_ready lim s"
  shows "round_trip lim s = Inr (persisted_session s)
       \<and> name (persisted_session s) = name s
       \<and> length (messages (persisted_session s)) = length (messages s)
       \<and> map request (messages (persisted_session s)) = map request (messages s)"
proof -
  from assms have "\<And>m r. m \<in> set (messages s) \<Longrightarrow> response m = Some r \<Longrightarrow>
             \<not> is_redirect (status r) \<and> persistable r
             \<and> get_response_size lim r \<noteq> Inl Int_ValueError"
    by (auto simp: round_trip_ready_def list_all_iff split: option.splits)
  with messages_round_trip [of "messages s" lim]
  obtain js where js: "map_result (message_to_json lim) (messages s) = Inr js"
    "map_result message_from_json js = Inr (map persisted_message (messages s))"
    by (auto simp: and_then_eq_Inr)
  then have "round_trip lim s = Inr (persisted_session s)"
    by (simp add: round_trip_def session_to_json_def session_from_json_def subscript_def
        iterate_def as_str_def persisted_session_def)
  then show ?thesis
    by (simp add: persisted_session_def persisted_message_def comp_def)
qed

theorem round_trip_persisted_witness:
  "round_trip_ready 4300 ex_session
   \<and> round_trip 4300 ex_session = Inr ex_session_restored
   \<and> name ex_session_restored = name ex_session
   \<and> length (messages ex_session_restored) = length (messages ex_session)"
proof -
  have h: "round_trip_ready 4300 ex_session"
    by (simp add: round_trip_ready_def persistable_def ex_defs http_defs builtin_defs)
  have p: "persisted_session ex_session = ex_session_restored"
    by (simp add: persisted_session_def persisted_message_def persisted_response_def
        ex_defs builtin_defs)
  from round_trip_persisted [OF h] p h show ?thesis
    by (simp add: ex_session_def ex_session_restored_def)
qed

section \<open>Properties of the browser manager\<close>

lemmas browser_defs = ex_config_def ex_world_def ex_partial_def ex_partial_bypass_def
  ex_idle_def ex_acquired_def
  ex_trace_def ex_live_def ex_endpoints_def default_config_def post_init_def Browser_init_def
  truthy_def

lemmas strategy_defs = setup_browser_def setup_cdp_def setup_wss_def
  setup_browser_with_instance_def setup_standard_browser_def engine_browser_def

subsection \<open>Proxy credentials\<close>

text \<open>
  The claim as it is worded fails: no path of \<^verbatim>\<open>__post_init__\<close> raises, and the module
  defines no \<^verbatim>\<open>ConfigurationError\<close>. A configuration with a proxy server, a user name
  and no password is constructed, and its proxy settings hold the server alone.
\<close>

theorem partial_credentials_counterexample:
  "proxy_username ex_partial = Some ''user'' \<and> proxy_password ex_partial = None
   \<and> BrowserConfig_new ex_partial =
       Inr (ex_partial\<lparr>proxy := Some \<lparr>server = ''http://localhost:3128'', bypass = None,
                                      username = None, password = None\<rparr>\<rparr>)"
  by (simp add: browser_defs BrowserConfig_new_def)

text \<open>
  C2, amended. For every configuration in which exactly one of \<^verbatim>\<open>proxy_username\<close> and
  \<^verbatim>\<open>proxy_password\<close> is set and the other is absent, constructing the configuration
  succeeds and changes no field that was given. The credentials are dropped silently: the
  attribute \<^verbatim>\<open>proxy\<close> is absent when there is no proxy server (or an empty one), and
  otherwise it holds that server, the bypass list when \<^verbatim>\<open>proxy_bypass\<close> is a non-empty
  string (and none otherwise), and neither a user name nor a password.
\<close>

theorem partial_credentials_accepted:
  assumes "(proxy_username c = None) \<noteq> (proxy_password c = None)"
  shows "\<exists>c'. BrowserConfig_new c = Inr c' \<and> c' = c\<lparr>proxy := proxy c'\<rparr>
          \<and> (case proxy c' of
                None \<Rightarrow> \<not> truthy (proxy_server c)
              | Some p \<Rightarrow> truthy (proxy_server c) \<and> server p = the (proxy_server c)
                          \<and> bypass p = (if truthy (proxy_bypass c) then proxy_bypass c else None)
                          \<and> username p = None \<and> password p = None)"
  using assms by (auto simp: BrowserConfig_new_def post_init_def truthy_def)

theorem partial_credentials_accepted_witness:
  "(proxy_username ex_partial_bypass = None) \<noteq> (proxy_password ex_partial_bypass = None)
   \<and> proxy_password ex_partial_bypass = Some ''secret''
   \<and> proxy_bypass ex_partial_bypass = Some ''localhost''
   \<and> (\<exists>c'. BrowserConfig_new ex_partial_bypass = Inr c'
          \<and> proxy c' = Some \<lparr>server = ''http://localhost:3128'', bypass = Some ''localhost'',
                               username = None, password = None\<rparr>)"
proof -
  have h: "(proxy_username ex_partial_bypass = None) \<noteq> (proxy_password ex_partial_bypass = None)"
    by (simp add: browser_defs)
  have f: "proxy_server ex_partial_bypass = Some ''http://localhost:3128''"
    "proxy_bypass ex_partial_bypass = Some ''localhost''"
    "proxy_password ex_partial_bypass = Some ''secret''"
    by (simp_all add: browser_defs)
  from partial_credentials_accepted [OF h] obtain c' where c':
    "BrowserConfig_new ex_partial_bypass = Inr c'"
    "case proxy c' of
       None \<Rightarrow> \<not> truthy (proxy_server ex_partial_bypass)
     | Some p \<Rightarrow> truthy (proxy_server ex_partial_bypass)
                 \<and> server p = the (proxy_server ex_partial_bypass)
                 \<and> bypass p = (if truthy (proxy_bypass ex_partial_bypass)
                               then proxy_bypass ex_partial_bypass else None)
                 \<and> username p = None \<and> password p = None"
    by blast
  from c'(2) f have "proxy c' = Some \<lparr>server = ''http://localhost:3128'',
      bypass = Some ''localhost'', username = None, password = None\<rparr>"
    by (cases "proxy c'") (auto simp: truthy_def)
  with h f c'(1) show ?thesis by blast
qed

subsection \<open>Closing\<close>

text \<open>
  The claim as it is worded fails: the \<^verbatim>\<open>finally\<close> block of \<^verbatim>\<open>close\<close> runs whatever
  the keep-alive flag says, and it sets both fields to \<^verbatim>\<open>None\<close>. A manager with the flag
  set that holds the browser 7 and the driver 1 holds neither after \<^verbatim>\<open>close\<close>.
\<close>

theorem close_keep_alive_counterexample:
  "force_keep_browser_alive (config ex_live)
   \<and> playwright_browser ex_live = Some 7 \<and> playwright ex_live = Some 1
   \<and> playwright_browser (fst (close ex_world ex_live [])) = None
   \<and> playwright (fst (close ex_world ex_live [])) = None"
  by (simp add: browser_defs close_def)

text \<open>
  C3, amended. For every manager whose configuration has \<^verbatim>\<open>_force_keep_browser_alive\<close>
  set, \<^verbatim>\<open>close\<close> makes no call to the engine: the trace of calls is the one before the
  call, so neither the browser is closed nor the driver stopped. It is no no-op on the
  manager, though: the fields \<^verbatim>\<open>playwright_browser\<close> and \<^verbatim>\<open>playwright\<close> are
  \<^verbatim>\<open>None\<close> afterwards, and the other fields are unchanged.
\<close>

theorem close_keep_alive:
  assumes "force_keep_browser_alive (config b)"
  shows "close w b tr = (b\<lparr>playwright_browser := None, playwright := None\<rparr>, tr)"
  using assms by (simp add: close_def close_calls_def)

theorem close_keep_alive_witness:
  "force_keep_browser_alive (config ex_live)
   \<and> close ex_world ex_live [Start_playwright] =
       (ex_live\<lparr>playwright_browser := None, playwright := None\<rparr>, [Start_playwright])"
proof -
  have h: "force_keep_browser_alive (config ex_live)" by (simp add: browser_defs)
  from close_keep_alive [OF h] h show ?thesis by simp
qed

subsection \<open>Selecting a strategy\<close>

text \<open>The calls of a strategy are appended to the trace. The instance strategy starts
  with a probe of the debug endpoint.\<close>

lemma poll_extends: "\<exists>ys. snd (poll w n tr) = tr @ ys"
proof (induction n arbitrary: tr)
  case 0
  then show ?case by simp
next
  case (Suc n)
  obtain ys where "snd (poll w n (tr @ [Requests_get version_url 2, Sleep 1]))
                   = (tr @ [Requests_get version_url 2, Sleep 1]) @ ys"
    using Suc.IH by blast
  then show ?case
    by (auto simp: Let_def split: sum.splits option.splits)
qed

lemma start_new_instance_extends:
  "\<exists>ys. snd (start_new_instance w b tr) = tr @ Popen (cmd_args (config b)) # ys"
proof -
  obtain ys where ys: "snd (poll w 10 (tr @ [Popen (cmd_args (config b))]))
                       = (tr @ [Popen (cmd_args (config b))]) @ ys"
    using poll_extends by blast
  then show ?thesis
    by (cases "poll w 10 (tr @ [Popen (cmd_args (config b))])")
       (auto simp: start_new_instance_def engine_browser_def Let_def
          split: sum.splits option.splits)
qed

lemma instance_probes_first:
  assumes "truthy (chrome_instance_path (config b))"
  shows "\<exists>ys. snd (setup_browser_with_instance w b tr) = tr @ Requests_get version_url 2 # ys"
proof -
  obtain ys1 where ys1: "snd (start_new_instance w b (tr @ [Requests_get version_url 2]))
      = (tr @ [Requests_get version_url 2]) @ Popen (cmd_args (config b)) # ys1"
    using start_new_instance_extends by blast
  obtain ys2 where ys2: "snd (start_new_instance w b
        (tr @ [Requests_get version_url 2, Connect_over_cdp debug_endpoint 20000 None]))
      = (tr @ [Requests_get version_url 2, Connect_over_cdp debug_endpoint 20000 None])
        @ Popen (cmd_args (config b)) # ys2"
    using start_new_instance_extends by blast
  from assms ys1 ys2 show ?thesis
    by (auto simp: setup_browser_with_instance_def engine_browser_def Let_def
        split: sum.splits)
qed

text \<open>
  \<^verbatim>\<open>_setup_browser\<close> tests the truth value of each selector, and the empty string is
  false. With \<^verbatim>\<open>cdp_url\<close> set to the empty string and \<^verbatim>\<open>wss_url\<close> set to an endpoint,
  both are set and the strategy invoked is WSS: the one call made is \<^verbatim>\<open>connect\<close>.
\<close>

theorem strategy_empty_cdp_counterexample:
  "cdp_url (config (ex_endpoints (Some []) (Some ''ws://localhost:3000'') None)) = Some []
   \<and> wss_url (config (ex_endpoints (Some []) (Some ''ws://localhost:3000'') None))
       = Some ''ws://localhost:3000''
   \<and> setup_browser ex_world (ex_endpoints (Some []) (Some ''ws://localhost:3000'') None) []
       = (Inr 7, [Connect ''ws://localhost:3000'' None])"
  by (simp add: browser_defs strategy_defs)

text \<open>
  C4, amended. A selector counts when it is set to a non-empty string. For every
  configuration the first selector that counts, in the order \<^verbatim>\<open>cdp_url\<close>,
  \<^verbatim>\<open>wss_url\<close>, \<^verbatim>\<open>chrome_instance_path\<close>, decides the strategy, and the standard launch
  is taken when none counts. With a \<^verbatim>\<open>cdp_url\<close> that counts, the one call made is
  \<^verbatim>\<open>connect_over_cdp\<close> to that endpoint, whatever \<^verbatim>\<open>wss_url\<close> holds; else with a
  \<^verbatim>\<open>wss_url\<close> that counts, the one call is \<^verbatim>\<open>connect\<close> to it; else with an instance
  path that counts, the instance strategy runs, and it starts with a probe of the debug
  endpoint; else the one call is \<^verbatim>\<open>launch\<close>. The result is what the strategy returns or
  raises.
\<close>

theorem strategy_precedence:
  fixes b :: "'ctx Browser"
  defines "c \<equiv> config b"
  shows "(truthy (cdp_url c) \<longrightarrow>
            setup_browser w b tr =
              (let call = Connect_over_cdp (the (cdp_url c)) 20000 (proxy c)
               in (connected w (tr @ [call]), tr @ [call])))
       \<and> (\<not> truthy (cdp_url c) \<and> truthy (wss_url c) \<longrightarrow>
            setup_browser w b tr =
              (let call = Connect (the (wss_url c)) (proxy c)
               in (connected w (tr @ [call]), tr @ [call])))
       \<and> (\<not> truthy (cdp_url c) \<and> \<not> truthy (wss_url c) \<and> truthy (chrome_instance_path c) \<longrightarrow>
            setup_browser w b tr = setup_browser_with_instance w b tr
            \<and> (\<exists>ys. snd (setup_browser w b tr) = tr @ Requests_get version_url 2 # ys))
       \<and> (\<not> truthy (cdp_url c) \<and> \<not> truthy (wss_url c) \<and> \<not> truthy (chrome_instance_path c) \<longrightarrow>
            setup_browser w b tr =
              (let call = Launch (headless c) (standard_args b) (proxy c)
               in (connected w (tr @ [call]), tr @ [call])))"
  using instance_probes_first [of b w tr]
  by (simp add: c_def setup_browser_def setup_cdp_def setup_wss_def
      setup_standard_browser_def engine_browser_def Let_def)

theorem strategy_precedence_witness:
  "truthy (Some ''http://remote:9222'') \<and> truthy (Some ''ws://remote:3000'')
   \<and> truthy (Some ''/usr/bin/chrome'') \<and> \<not> truthy None
   \<and> setup_browser ex_world
        (ex_endpoints (Some ''http://remote:9222'') (Some ''ws://remote:3000'') None) []
       = (Inr 7, [Connect_over_cdp ''http://remote:9222'' 20000 None])
   \<and> setup_browser ex_world
        (ex_endpoints None (Some ''ws://remote:3000'') (Some ''/usr/bin/chrome'')) []
       = (Inr 7, [Connect ''ws://remote:3000'' None])
   \<and> setup_browser ex_world (ex_endpoints None None (Some ''/usr/bin/chrome'')) []
       = setup_browser_with_instance ex_world
           (ex_endpoints None None (Some ''/usr/bin/chrome'')) []
   \<and> setup_browser_with_instance ex_world
         (ex_endpoints None None (Some ''/usr/bin/chrome'')) []
       = (Inr 7, [Requests_get version_url 2, Connect_over_cdp debug_endpoint 20000 None])
   \<and> setup_browser ex_world (ex_endpoints None None None) []
       = (Inr 7, [Launch False (standard_args (ex_endpoints None None None)) None])"
proof -
  have i: "setup_browser_with_instance ex_world
         (ex_endpoints None None (Some ''/usr/bin/chrome'')) []
       = (Inr 7, [Requests_get version_url 2, Connect_over_cdp debug_endpoint 20000 None])"
    by (simp add: strategy_defs browser_defs)
  have t: "truthy (Some ''http://remote:9222'')" "truthy (Some ''ws://remote:3000'')"
    "truthy (Some ''/usr/bin/chrome'')" "\<not> truthy None"
    by (simp_all add: truthy_def)
  have w: "connected ex_world = (\<lambda>tr. Inr 7)"
    by (simp add: ex_world_def)
  have c: "config (ex_endpoints cdp wss path)
      = ex_config\<lparr>cdp_url := cdp, wss_url := wss, chrome_instance_path := path\<rparr>"
    "proxy ex_config = None" "headless ex_config = False" for cdp wss path
    by (simp_all add: ex_endpoints_def Browser_init_def ex_config_def default_config_def
        post_init_def truthy_def)
  from strategy_precedence
         [of "ex_endpoints (Some ''http://remote:9222'') (Some ''ws://remote:3000'') None"
             ex_world "[]"]
  have 1: "setup_browser ex_world
        (ex_endpoints (Some ''http://remote:9222'') (Some ''ws://remote:3000'') None) []
       = (Inr 7, [Connect_over_cdp ''http://remote:9222'' 20000 None])"
    by (simp add: w c t Let_def)
  from strategy_precedence
         [of "ex_endpoints None (Some ''ws://remote:3000'') (Some ''/usr/bin/chrome'')"
             ex_world "[]"]
  have 2: "setup_browser ex_world
        (ex_endpoints None (Some ''ws://remote:3000'') (Some ''/usr/bin/chrome'')) []
       = (Inr 7, [Connect ''ws://remote:3000'' None])"
    by (simp add: w c t Let_def)
  from strategy_precedence
         [of "ex_endpoints None None (Some ''/usr/bin/chrome'')" ex_world "[]"]
  have 3: "setup_browser ex_world (ex_endpoints None None (Some ''/usr/bin/chrome'')) []
       = setup_browser_with_instance ex_world
           (ex_endpoints None None (Some ''/usr/bin/chrome'')) []"
    by (simp add: w c t Let_def)
  from strategy_precedence [of "ex_endpoints None None None" ex_world "[]"]
  have 4: "setup_browser ex_world (ex_endpoints None None None) []
       = (Inr 7, [Launch False (standard_args (ex_endpoints None None None)) None])"
    by (simp add: w c t Let_def)
  from t 1 2 3 4 i show ?thesis by simp
qed

subsection \<open>Acquiring\<close>

text \<open>
  C5. \<^verbatim>\<open>get_playwright_browser\<close> is idempotent. For every manager that holds a live
  browser, the call returns that browser, leaves the manager as it is and makes no call at
  all, so no strategy is invoked. In particular, when a call has returned a browser, the next
  call (with no \<^verbatim>\<open>close\<close> in between) returns the same browser and adds nothing to the
  trace.
\<close>

theorem acquire_idempotent:
  "(playwright_browser b = Some h \<longrightarrow> get_playwright_browser w b tr = (Inr h, b, tr))
   \<and> (get_playwright_browser w b tr = (Inr h, b', tr') \<longrightarrow>
        get_playwright_browser w b' tr' = (Inr h, b', tr'))"
  by (auto simp: get_playwright_browser_def init_def Let_def
      split: option.splits sum.splits prod.splits)

theorem acquire_idempotent_witness:
  "playwright_browser ex_acquired = Some 7
   \<and> get_playwright_browser ex_world ex_idle [] = (Inr 7, ex_acquired, ex_trace)
   \<and> get_playwright_browser ex_world ex_acquired ex_trace = (Inr 7, ex_acquired, ex_trace)"
proof -
  have live: "playwright_browser ex_acquired = Some 7"
    by (simp add: ex_acquired_def)
  have first: "get_playwright_browser ex_world ex_idle [] = (Inr 7, ex_acquired, ex_trace)"
    by (simp add: get_playwright_browser_def init_def strategy_defs browser_defs)
  from acquire_idempotent [of ex_idle 7 ex_world "[]" ex_acquired ex_trace] first
  have again: "get_playwright_browser ex_world ex_acquired ex_trace
               = (Inr 7, ex_acquired, ex_trace)"
    by blast
  from acquire_idempotent [of ex_acquired 7 ex_world ex_trace] live
  have "get_playwright_browser ex_world ex_acquired ex_trace = (Inr 7, ex_acquired, ex_trace)"
    by blast
  with live first again show ?thesis by simp
qed

end
